theory Spec2Isabelle
  imports Main "HOL-Library.Word"
begin

unbundle bit_operations_syntax

section \<open>JavaScript values\<close>

text \<open>
  A JavaScript string is a sequence of UTF-16 code units; \<open>charCodeAt\<close> reads one of
  them as a number in \<open>[0, 65535]\<close>.  String literals of the source are plain ASCII and
  are written with \<open>lit\<close>.
\<close>

type_synonym code_unit = "16 word"
type_synonym jsstring = "code_unit list"

definition lit :: "string \<Rightarrow> jsstring" where
  "lit s = map (\<lambda>c. of_nat (of_char c)) s"

definition charCode :: "code_unit \<Rightarrow> int" where
  "charCode c = uint c"

text \<open>
  Numbers of the hash computation are integers small enough to be exact as doubles
  (lemma \<open>hashString_products_exact\<close> below), so they are modelled as \<open>int\<close>.  The bitwise
  operators first coerce their operands to signed 32-bit integers (\<open>ToInt32\<close>) and return
  a signed 32-bit integer; \<open>>>> 0\<close> coerces to an unsigned one (\<open>ToUint32\<close>).
\<close>

definition ToInt32 :: "int \<Rightarrow> int" where
  "ToInt32 x = (x + 2 ^ 31) mod 2 ^ 32 - 2 ^ 31"

definition ToUint32 :: "int \<Rightarrow> int" where
  "ToUint32 x = x mod 2 ^ 32"

definition js_xor :: "int \<Rightarrow> int \<Rightarrow> int" where
  "js_xor a b = ToInt32 (ToInt32 a XOR ToInt32 b)"

text \<open>The remainder operator \<open>%\<close> truncates: its result has the sign of the dividend.\<close>

definition js_rem :: "int \<Rightarrow> int \<Rightarrow> int" where
  "js_rem a b = (if a < 0 then - ((- a) mod \<bar>b\<bar>) else a mod \<bar>b\<bar>)"

text \<open>Reading an array outside its bounds yields \<open>undefined\<close>, here \<open>None\<close>.\<close>

definition js_index :: "'a list \<Rightarrow> int \<Rightarrow> 'a option" where
  "js_index xs i = (if 0 \<le> i \<and> i < int (length xs) then Some (xs ! nat i) else None)"

fun js_lines :: "string list \<Rightarrow> string" where
  "js_lines [] = []"
| "js_lines [l] = l"
| "js_lines (l # ls) = l @ CHR 0x0A # js_lines ls"

section \<open>Variation assignment (lib/variation.ts)\<close>

datatype Variation = A | B | C | D

primrec hashString_loop :: "int \<Rightarrow> jsstring \<Rightarrow> int" where
  "hashString_loop hash [] = hash"
| "hashString_loop hash (c # str) = hashString_loop (js_xor (hash * 33) (charCode c)) str"

definition hashString :: "jsstring \<Rightarrow> int" where
  "hashString str = ToUint32 (hashString_loop 5381 str)"

definition assignVariation :: "jsstring \<Rightarrow> jsstring \<Rightarrow> Variation option" where
  "assignVariation visitorId projectId =
     (let combined = visitorId @ lit '':'' @ projectId;
          hash = hashString combined;
          variations = [A, B, C, D]
      in js_index variations (js_rem hash 4))"

definition isValidVariation :: "jsstring \<Rightarrow> bool" where
  "isValidVariation v = (v \<in> set [lit ''A'', lit ''B'', lit ''C'', lit ''D''])"

text \<open>The accumulator values the loop goes through, the initial one first.\<close>

primrec hashString_accs :: "int \<Rightarrow> jsstring \<Rightarrow> int list" where
  "hashString_accs hash [] = [hash]"
| "hashString_accs hash (c # str) = hash # hashString_accs (js_xor (hash * 33) (charCode c)) str"

section \<open>The Hasher contract, in the words of the specification\<close>

text \<open>
  Accumulator 5381; for each character the accumulator becomes
  \<open>((accumulator * 33) XOR code) mod 2^32\<close>; the final value is coerced to an unsigned
  32-bit integer.
\<close>

primrec djb2_loop :: "int \<Rightarrow> jsstring \<Rightarrow> int" where
  "djb2_loop acc [] = acc"
| "djb2_loop acc (c # cs) = djb2_loop (((acc * 33) XOR uint c) mod 2 ^ 32) cs"

definition djb2_spec :: "jsstring \<Rightarrow> int" where
  "djb2_spec s = djb2_loop 5381 s mod 2 ^ 32"

text \<open>The same contract on the machine type of 32-bit words.\<close>

primrec djb2_word_loop :: "32 word \<Rightarrow> jsstring \<Rightarrow> 32 word" where
  "djb2_word_loop acc [] = acc"
| "djb2_word_loop acc (c # cs) = djb2_word_loop ((acc * 33) XOR ucast c) cs"

definition djb2_word :: "jsstring \<Rightarrow> 32 word" where
  "djb2_word s = djb2_word_loop 5381 s"

section \<open>Embed script generation (lib/script-generator.ts)\<close>

text \<open>
  The template literal of \<open>generateEmbedScript\<close>, cut at its four interpolations:
  three of the project identifier, one of the API endpoint.
\<close>

definition embed_part0 :: string where
  \<open>embed_part0 = js_lines
    [''(function(){'',
     ''  var O=window.__OPTIMELEON__=window.__OPTIMELEON__||{};'',
     ''  if(O["'']\<close>

definition embed_part1 :: string where
  \<open>embed_part1 = js_lines
    [''"])return;'',
     ''  O["'']\<close>

definition embed_part2 :: string where
  \<open>embed_part2 = js_lines
    [''"]=true;'',
     ''  '',
     ''  var config={'',
     ''    projectId:"'']\<close>

definition embed_part3 :: string where
  \<open>embed_part3 = js_lines
    [''",'',
     ''    api:"'']\<close>

definition embed_part4 :: string where
  \<open>embed_part4 = js_lines
    [''"'',
     ''  };'',
     ''  '',
     ''  function getVisitorId(){'',
     ''    var k="optim_vid";'',
     ''    try{'',
     ''      var id=localStorage.getItem(k);'',
     ''      if(!id){'',
     ''        id="v_"+Date.now().toString(36)+Math.random().toString(36).substr(2,9);'',
     ''        localStorage.setItem(k,id);'',
     ''      }'',
     ''      return id;'',
     ''    }catch(e){'',
     ''      return "v_"+Date.now().toString(36)+Math.random().toString(36).substr(2,9);'',
     ''    }'',
     ''  }'',
     ''  '',
     ''  function hash(s){'',
     ''    var h=5381;'',
     ''    for(var i=0;i<s.length;i++){'',
     ''      h=(h*33)^s.charCodeAt(i);'',
     ''    }'',
     ''    return h>>>0;'',
     ''  }'',
     ''  '',
     ''  function getVariation(vid,pid){'',
     ''    var vars=["A","B","C","D"];'',
     ''    return vars[hash(vid+":"+pid)%4];'',
     ''  }'',
     ''  '',
     ''  function applyVariation(v){'',
     ''    // Add data attribute to document for CSS targeting'',
     ''    document.documentElement.setAttribute("data-optim-variation",v);'',
     ''    '',
     ''    // Show/hide elements based on data-optim-show attribute'',
     ''    var els=document.querySelectorAll("[data-optim-show]");'',
     ''    for(var i=0;i<els.length;i++){'',
     ''      var el=els[i];'',
     ''      var showFor=el.getAttribute("data-optim-show");'',
     ''      if(showFor&&showFor.indexOf(v)===-1){'',
     ''        el.style.display="none";'',
     ''      }'',
     ''    }'',
     ''    '',
     ''    // Update URL parameter (optional, for analytics tools)'',
     ''    if(window.location.search.indexOf("variation=")===-1){'',
     ''      var sep=window.location.search?"&":"?";'',
     ''      var newUrl=window.location.href+sep+"variation="+v;'',
     ''      try{'',
     ''        window.history.replaceState({},"",newUrl);'',
     ''      }catch(e){}'',
     ''    }'',
     ''  }'',
     ''  '',
     ''  function track(vid,v){'',
     ''    try{'',
     ''      var img=new Image();'',
     ''      img.src=config.api+"/api/track?v="+encodeURIComponent(vid)+"&p="+encodeURIComponent(config.projectId)+"&var="+v+"&t="+Date.now();'',
     ''    }catch(e){}'',
     ''  }'',
     ''  '',
     ''  function init(){'',
     ''    try{'',
     ''      var vid=getVisitorId();'',
     ''      var variation=getVariation(vid,config.projectId);'',
     ''      '',
     ''      O.visitorId=vid;'',
     ''      O.variation=variation;'',
     ''      O.projectId=config.projectId;'',
     ''      '',
     ''      applyVariation(variation);'',
     ''      track(vid,variation);'',
     ''      '',
     ''      // Dispatch custom event for integrations'',
     ''      if(typeof CustomEvent!=="undefined"){'',
     ''        document.dispatchEvent(new CustomEvent("optimeleon:ready",{'',
     ''          detail:{visitorId:vid,variation:variation,projectId:config.projectId}'',
     ''        }));'',
     ''      }'',
     ''    }catch(e){'',
     ''      console.warn("[Optimeleon] Error:",e.message);'',
     ''    }'',
     ''  }'',
     ''  '',
     ''  if(document.readyState==="loading"){'',
     ''    document.addEventListener("DOMContentLoaded",init);'',
     ''  }else{'',
     ''    init();'',
     ''  }'',
     ''})();'']\<close>

definition generateEmbedScript :: "jsstring \<Rightarrow> jsstring \<Rightarrow> jsstring" where
  "generateEmbedScript projectId apiEndpoint =
     lit embed_part0 @ projectId @ lit embed_part1 @ projectId @ lit embed_part2 @ projectId
       @ lit embed_part3 @ apiEndpoint @ lit embed_part4"

definition generateEmbedCode :: "jsstring \<Rightarrow> jsstring \<Rightarrow> jsstring" where
  \<open>generateEmbedCode projectId apiEndpoint =
     lit ''<script src="'' @ apiEndpoint @ lit ''/api/s/'' @ projectId @ lit ''"></script>''\<close>

section \<open>The store (lib/db.ts)\<close>

text \<open>
  Two tables.  \<open>projects.id\<close> and \<open>visitor_events.id\<close> are primary keys; the column
  \<open>visitor_events.variation\<close> carries \<open>CHECK(variation IN ('A','B','C','D'))\<close>, so a stored
  row holds one of the four symbols.
\<close>

record project_row =
  p_id :: jsstring
  p_name :: jsstring
  p_domain :: jsstring
  p_description :: "jsstring option"
  p_is_active :: int
  p_created_at :: jsstring
  p_updated_at :: jsstring

record event_row =
  e_id :: jsstring
  e_project_id :: jsstring
  e_visitor_id :: jsstring
  e_variation :: Variation
  e_timestamp :: jsstring
  e_user_agent :: "jsstring option"
  e_referrer :: "jsstring option"

record database =
  projects :: "project_row list"
  visitor_events :: "event_row list"

text \<open>
  What a handler gets from outside: which of its calls raise an exception, the value of
  \<open>nanoid(12)\<close>, the clock, and the environment variable naming the public URL.
\<close>

datatype call =
  ReadRequest | OpenDatabase | SelectProject | SelectCounts | InsertEvent | DeleteEvents
  | DeleteProject

datatype exn = RequestError | StoreError | ConstraintError

record env =
  throws :: "call \<Rightarrow> bool"
  nanoid12 :: jsstring
  now_iso :: jsstring
  NEXT_PUBLIC_APP_URL :: "jsstring option"

definition getDatabase :: "env \<Rightarrow> database \<Rightarrow> exn + database" where
  "getDatabase env db = (if throws env OpenDatabase then Inl StoreError else Inr db)"

text \<open>\<open>SELECT ... FROM projects WHERE id = ?\<close>, read with \<open>.get\<close>: the first row or undefined.\<close>

definition select_project :: "env \<Rightarrow> database \<Rightarrow> jsstring \<Rightarrow> exn + project_row option" where
  "select_project env db ident =
     (if throws env SelectProject then Inl StoreError
      else Inr (find (\<lambda>p. p_id p = ident) (projects db)))"

definition variation_of_text :: "jsstring \<Rightarrow> Variation option" where
  "variation_of_text t =
     (if t = lit ''A'' then Some A else if t = lit ''B'' then Some B
      else if t = lit ''C'' then Some C else if t = lit ''D'' then Some D else None)"

text \<open>
  \<open>INSERT INTO visitor_events ... VALUES (?, ?, ?, ?, ?, ?, ?)\<close>.  The statement fails,
  leaving the table as it was, when the primary key is taken or the variation fails the
  CHECK constraint.
\<close>

definition insert_event ::
  "env \<Rightarrow> database \<Rightarrow> jsstring \<Rightarrow> jsstring \<Rightarrow> jsstring \<Rightarrow> jsstring \<Rightarrow> jsstring
     \<Rightarrow> jsstring option \<Rightarrow> jsstring option \<Rightarrow> exn + database" where
  "insert_event env db eid pid vid var ts ua ref =
     (if throws env InsertEvent then Inl StoreError
      else if eid \<in> set (map e_id (visitor_events db)) then Inl ConstraintError
      else case variation_of_text var of
             None \<Rightarrow> Inl ConstraintError
           | Some v \<Rightarrow>
               Inr (db\<lparr>visitor_events := visitor_events db @
                     [\<lparr>e_id = eid, e_project_id = pid, e_visitor_id = vid, e_variation = v,
                       e_timestamp = ts, e_user_agent = ua, e_referrer = ref\<rparr>]\<rparr>))"

text \<open>
  \<open>SELECT variation, COUNT(*) as count FROM visitor_events WHERE project_id = ?
  GROUP BY variation\<close>: one row for each variation that has events, in key order.
\<close>

definition select_variation_counts ::
  "env \<Rightarrow> database \<Rightarrow> jsstring \<Rightarrow> exn + (Variation \<times> nat) list" where
  "select_variation_counts env db ident =
     (if throws env SelectCounts then Inl StoreError
      else Inr (let rows = filter (\<lambda>e. e_project_id e = ident) (visitor_events db)
                in map (\<lambda>v. (v, length (filter (\<lambda>e. e_variation e = v) rows)))
                     (filter (\<lambda>v. v \<in> set (map e_variation rows)) [A, B, C, D])))"

definition delete_events :: "env \<Rightarrow> database \<Rightarrow> jsstring \<Rightarrow> exn + database" where
  "delete_events env db ident =
     (if throws env DeleteEvents then Inl StoreError
      else Inr (db\<lparr>visitor_events := filter (\<lambda>e. e_project_id e \<noteq> ident) (visitor_events db)\<rparr>))"

definition delete_project :: "env \<Rightarrow> database \<Rightarrow> jsstring \<Rightarrow> exn + database" where
  "delete_project env db ident =
     (if throws env DeleteProject then Inl StoreError
      else Inr (db\<lparr>projects := filter (\<lambda>p. p_id p \<noteq> ident) (projects db)\<rparr>))"

section \<open>Requests and responses\<close>

record request =
  searchParams :: "(jsstring \<times> jsstring) list"
  req_headers :: "(jsstring \<times> jsstring) list"

text \<open>\<open>searchParams.get(name)\<close> and \<open>headers.get(name)\<close>: the first value, or null.\<close>

definition searchParams_get :: "request \<Rightarrow> jsstring \<Rightarrow> jsstring option" where
  "searchParams_get req name = map_of (searchParams req) name"

definition headers_get :: "request \<Rightarrow> jsstring \<Rightarrow> jsstring option" where
  "headers_get req name = map_of (req_headers req) name"

text \<open>
  \<open>x || null\<close> and \<open>x || d\<close> on a string that may be absent: null and the empty string
  are falsy.
\<close>

definition or_null :: "jsstring option \<Rightarrow> jsstring option" where
  "or_null x = (case x of None \<Rightarrow> None | Some s \<Rightarrow> if s = [] then None else Some s)"

definition or_default :: "jsstring option \<Rightarrow> jsstring \<Rightarrow> jsstring" where
  "or_default x d = (case x of None \<Rightarrow> d | Some s \<Rightarrow> if s = [] then d else s)"

record stats_json =
  j_totalVisitors :: nat
  j_variations :: "Variation \<rightharpoonup> nat"

record project_json =
  j_id :: jsstring
  j_name :: jsstring
  j_domain :: jsstring
  j_description :: "jsstring option"
  j_isActive :: bool
  j_createdAt :: jsstring
  j_updatedAt :: jsstring
  j_embedScript :: jsstring
  j_stats :: stats_json

datatype payload =
  TextBody jsstring
  | BufferBody "8 word list"
  | JsonError jsstring
  | JsonSuccess bool
  | JsonProject project_json

record response =
  status :: nat
  body :: payload
  headers :: "(jsstring \<times> jsstring) list"

definition json_response :: "payload \<Rightarrow> nat \<Rightarrow> response" where
  "json_response b st =
     \<lparr>status = st, body = b, headers = [(lit ''content-type'', lit ''application/json'')]\<rparr>"

section \<open>Script serving endpoint (app/api/s/[id]/route.ts)\<close>

definition project_not_found_script :: jsstring where
  "project_not_found_script = lit ''/* Optimeleon: Project not found */''"

definition project_inactive_script :: jsstring where
  "project_inactive_script = lit ''/* Optimeleon: Project is inactive */''"

definition internal_error_script :: jsstring where
  "internal_error_script = lit ''/* Optimeleon: Internal error */''"

definition GET_script_try :: "env \<Rightarrow> database \<Rightarrow> jsstring \<Rightarrow> exn + response" where
  "GET_script_try env db0 ident =
     (if throws env ReadRequest then Inl RequestError
      else case getDatabase env db0 of
        Inl e \<Rightarrow> Inl e
      | Inr db \<Rightarrow>
         (case select_project env db ident of
            Inl e \<Rightarrow> Inl e
          | Inr None \<Rightarrow>
              Inr \<lparr>status = 200, body = TextBody project_not_found_script,
                   headers = [(lit ''Content-Type'', lit ''application/javascript''),
                              (lit ''Cache-Control'', lit ''no-cache, no-store, must-revalidate'')]\<rparr>
          | Inr (Some project) \<Rightarrow>
              if p_is_active project \<noteq> 1 then
                Inr \<lparr>status = 200, body = TextBody project_inactive_script,
                     headers = [(lit ''Content-Type'', lit ''application/javascript''),
                                (lit ''Cache-Control'', lit ''no-cache, no-store, must-revalidate'')]\<rparr>
              else
                let apiEndpoint = or_default (NEXT_PUBLIC_APP_URL env) (lit ''http://localhost:3000'');
                    script = generateEmbedScript (p_id project) apiEndpoint
                in Inr \<lparr>status = 200, body = TextBody script,
                        headers = [(lit ''Content-Type'', lit ''application/javascript''),
                                   (lit ''Cache-Control'', lit ''public, max-age=300''),
                                   (lit ''Access-Control-Allow-Origin'', lit ''*'')]\<rparr>))"

definition GET_script :: "env \<Rightarrow> database \<Rightarrow> jsstring \<Rightarrow> response" where
  "GET_script env db ident =
     (case GET_script_try env db ident of
        Inr r \<Rightarrow> r
      | Inl e \<Rightarrow>
          \<lparr>status = 200, body = TextBody internal_error_script,
            headers = [(lit ''Content-Type'', lit ''application/javascript''),
                       (lit ''Cache-Control'', lit ''no-cache'')]\<rparr>)"

section \<open>Tracking beacon endpoint (app/api/track/route.ts)\<close>

text \<open>\<open>Buffer.from(text, "base64")\<close> for text over the base64 alphabet without padding.\<close>

definition base64_alphabet :: string where
  "base64_alphabet = ''ABCDEFGHIJKLMNOPQRSTUVWXYZabcdefghijklmnopqrstuvwxyz0123456789+/''"

fun index_of :: "'a \<Rightarrow> 'a list \<Rightarrow> nat option" where
  "index_of x [] = None"
| "index_of x (y # ys) = (if x = y then Some 0 else map_option Suc (index_of x ys))"

fun base64_groups :: "nat list \<Rightarrow> nat list" where
  "base64_groups (a # b # c # d # rest) =
     (a * 4 + b div 16) mod 256 # (b * 16 + c div 4) mod 256 # (c * 64 + d) mod 256
       # base64_groups rest"
| "base64_groups [a, b, c] = [(a * 4 + b div 16) mod 256, (b * 16 + c div 4) mod 256]"
| "base64_groups [a, b] = [(a * 4 + b div 16) mod 256]"
| "base64_groups _ = []"

definition Buffer_from_base64 :: "string \<Rightarrow> 8 word list" where
  "Buffer_from_base64 s =
     map of_nat (base64_groups (List.map_filter (\<lambda>c. index_of c base64_alphabet) s))"

definition PIXEL :: "8 word list" where
  "PIXEL = Buffer_from_base64 ''R0lGODlhAQABAIAAAAAAAP///yH5BAEAAAAALAAAAAABAAEAAAIBRAA7''"

definition pixel_response :: "(jsstring \<times> jsstring) list \<Rightarrow> response" where
  "pixel_response hs = \<lparr>status = 200, body = BufferBody PIXEL, headers = hs\<rparr>"

definition no_store_headers :: "(jsstring \<times> jsstring) list" where
  "no_store_headers =
     [(lit ''Content-Type'', lit ''image/gif''),
      (lit ''Cache-Control'', lit ''no-cache, no-store, must-revalidate'')]"

text \<open>
  The try block.  \<open>!x\<close> holds of a parameter that is null and of one that is the empty
  string.  The result pairs the outcome with the store as the block leaves it.
\<close>

definition GET_track_try :: "env \<Rightarrow> request \<Rightarrow> database \<Rightarrow> (exn + response) \<times> database" where
  "GET_track_try env req db0 =
     (if throws env ReadRequest then (Inl RequestError, db0)
      else
        let visitorId = searchParams_get req (lit ''v'');
            projectId = searchParams_get req (lit ''p'');
            variation = searchParams_get req (lit ''var'')
        in case (visitorId, projectId, variation) of
             (Some v, Some p, Some var) \<Rightarrow>
               if v = [] \<or> p = [] \<or> var = [] then (Inr (pixel_response no_store_headers), db0)
               else if \<not> isValidVariation var then (Inr (pixel_response no_store_headers), db0)
               else (case getDatabase env db0 of
                  Inl e \<Rightarrow> (Inl e, db0)
                | Inr db \<Rightarrow>
                   (case select_project env db p of
                      Inl e \<Rightarrow> (Inl e, db)
                    | Inr None \<Rightarrow> (Inr (pixel_response no_store_headers), db)
                    | Inr (Some project) \<Rightarrow>
                        let userAgent = or_null (headers_get req (lit ''user-agent''));
                            referrer = or_null (headers_get req (lit ''referer''))
                        in (case insert_event env db (lit ''evt_'' @ nanoid12 env) p v var
                                   (now_iso env) userAgent referrer of
                              Inl e \<Rightarrow> (Inl e, db)
                            | Inr db' \<Rightarrow>
                                (Inr (pixel_response
                                       [(lit ''Content-Type'', lit ''image/gif''),
                                        (lit ''Cache-Control'', lit ''no-cache, no-store, must-revalidate''),
                                        (lit ''Access-Control-Allow-Origin'', lit ''*'')]), db'))))
           | _ \<Rightarrow> (Inr (pixel_response no_store_headers), db0))"

definition GET_track :: "env \<Rightarrow> request \<Rightarrow> database \<Rightarrow> response \<times> database" where
  "GET_track env req db0 =
     (case GET_track_try env req db0 of
        (Inr r, db) \<Rightarrow> (r, db)
      | (Inl e, db) \<Rightarrow>
          (pixel_response [(lit ''Content-Type'', lit ''image/gif''),
                           (lit ''Cache-Control'', lit ''no-cache'')], db))"

section \<open>Project detail and deletion (app/api/projects/[id]/route.ts)\<close>

text \<open>The \<open>forEach\<close> over the grouped counts, on the pair of the two variables it updates.\<close>

primrec tally ::
  "(Variation \<times> nat) list \<Rightarrow> (Variation \<rightharpoonup> nat) \<times> nat \<Rightarrow> (Variation \<rightharpoonup> nat) \<times> nat" where
  "tally [] acc = acc"
| "tally (s # stats) acc =
     tally stats
       (case acc of (variationCounts, totalVisitors) \<Rightarrow>
          if variationCounts (fst s) \<noteq> None
          then (variationCounts(fst s \<mapsto> snd s), totalVisitors + snd s)
          else (variationCounts, totalVisitors))"

definition GET_project_try :: "env \<Rightarrow> database \<Rightarrow> jsstring \<Rightarrow> exn + response" where
  "GET_project_try env db0 ident =
     (if throws env ReadRequest then Inl RequestError
      else case getDatabase env db0 of
        Inl e \<Rightarrow> Inl e
      | Inr db \<Rightarrow>
         (case select_project env db ident of
            Inl e \<Rightarrow> Inl e
          | Inr None \<Rightarrow> Inr (json_response (JsonError (lit ''Project not found'')) 404)
          | Inr (Some project) \<Rightarrow>
             (case select_variation_counts env db ident of
                Inl e \<Rightarrow> Inl e
              | Inr stats \<Rightarrow>
                 (case tally stats ([A \<mapsto> 0, B \<mapsto> 0, C \<mapsto> 0, D \<mapsto> 0], 0) of
                    (variationCounts, totalVisitors) \<Rightarrow>
                      let apiEndpoint = or_default (NEXT_PUBLIC_APP_URL env) (lit ''http://localhost:3000'');
                          embedScript = generateEmbedCode (p_id project) apiEndpoint
                      in Inr (json_response
                           (JsonProject
                             \<lparr>j_id = p_id project, j_name = p_name project,
                               j_domain = p_domain project,
                               j_description = p_description project,
                               j_isActive = (p_is_active project = 1),
                               j_createdAt = p_created_at project,
                               j_updatedAt = p_updated_at project,
                               j_embedScript = embedScript,
                               j_stats = \<lparr>j_totalVisitors = totalVisitors,
                                           j_variations = variationCounts\<rparr>\<rparr>) 200)))))"

definition GET_project :: "env \<Rightarrow> database \<Rightarrow> jsstring \<Rightarrow> response" where
  "GET_project env db ident =
     (case GET_project_try env db ident of
        Inr r \<Rightarrow> r
      | Inl e \<Rightarrow> json_response (JsonError (lit ''Failed to get project'')) 500)"

definition DELETE_project_try ::
  "env \<Rightarrow> database \<Rightarrow> jsstring \<Rightarrow> (exn + response) \<times> database" where
  "DELETE_project_try env db0 ident =
     (if throws env ReadRequest then (Inl RequestError, db0)
      else case getDatabase env db0 of
        Inl e \<Rightarrow> (Inl e, db0)
      | Inr db \<Rightarrow>
         (case select_project env db ident of
            Inl e \<Rightarrow> (Inl e, db)
          | Inr None \<Rightarrow> (Inr (json_response (JsonError (lit ''Project not found'')) 404), db)
          | Inr (Some existing) \<Rightarrow>
             (case delete_events env db ident of
                Inl e \<Rightarrow> (Inl e, db)
              | Inr db1 \<Rightarrow>
                 (case delete_project env db1 ident of
                    Inl e \<Rightarrow> (Inl e, db1)
                  | Inr db2 \<Rightarrow> (Inr (json_response (JsonSuccess True) 200), db2)))))"

definition DELETE_project :: "env \<Rightarrow> database \<Rightarrow> jsstring \<Rightarrow> response \<times> database" where
  "DELETE_project env db0 ident =
     (case DELETE_project_try env db0 ident of
        (Inr r, db) \<Rightarrow> (r, db)
      | (Inl e, db) \<Rightarrow> (json_response (JsonError (lit ''Failed to delete project'')) 500, db))"

text \<open>A run of tracking calls, each with what it gets from outside, threading the store.\<close>

primrec track_all :: "(env \<times> request) list \<Rightarrow> database \<Rightarrow> database" where
  "track_all [] db = db"
| "track_all (c # cs) db = track_all cs (snd (GET_track (fst c) (snd c) db))"

section \<open>Notions the claims are stated with\<close>

text \<open>The directives of a \<open>Cache-Control\<close> value: split at commas, leading blanks dropped.\<close>

fun split_on :: "'a \<Rightarrow> 'a list \<Rightarrow> 'a list list" where
  "split_on d [] = [[]]"
| "split_on d (c # cs) =
     (if c = d then [] # split_on d cs
      else case split_on d cs of w # ws \<Rightarrow> (c # w) # ws | [] \<Rightarrow> [[c]])"

definition header_directives :: "jsstring \<Rightarrow> jsstring list" where
  "header_directives v = map (dropWhile (\<lambda>c. c = 32)) (split_on 44 v)"

definition sets_no_cache :: "response \<Rightarrow> bool" where
  "sets_no_cache r =
     (case map_of (headers r) (lit ''Cache-Control'') of
        None \<Rightarrow> False
      | Some v \<Rightarrow> lit ''no-cache'' \<in> set (header_directives v))"

text \<open>
  The row a tracking call records, if it records one: the three parameters are present,
  visitor and project identifiers are not empty, the variation is one of the four symbols,
  the project is in the store, no call raises, and the generated event identifier is not
  in use.
\<close>

definition recorded_event :: "env \<Rightarrow> request \<Rightarrow> database \<Rightarrow> event_row option" where
  "recorded_event env req db =
     (case (searchParams_get req (lit ''v''), searchParams_get req (lit ''p''),
            searchParams_get req (lit ''var'')) of
        (Some v, Some p, Some var) \<Rightarrow>
          (case variation_of_text var of
             None \<Rightarrow> None
           | Some x \<Rightarrow>
               if v = [] \<or> p = [] then None
               else if find (\<lambda>r. p_id r = p) (projects db) = None then None
               else if throws env ReadRequest \<or> throws env OpenDatabase
                       \<or> throws env SelectProject \<or> throws env InsertEvent then None
               else if lit ''evt_'' @ nanoid12 env \<in> set (map e_id (visitor_events db)) then None
               else Some \<lparr>e_id = lit ''evt_'' @ nanoid12 env, e_project_id = p,
                          e_visitor_id = v, e_variation = x, e_timestamp = now_iso env,
                          e_user_agent = or_null (headers_get req (lit ''user-agent'')),
                          e_referrer = or_null (headers_get req (lit ''referer''))\<rparr>)
      | _ \<Rightarrow> None)"

text \<open>The statistics a project response carries, and the count they are compared with.\<close>

definition project_stats :: "response \<Rightarrow> stats_json option" where
  "project_stats r = (case body r of JsonProject j \<Rightarrow> Some (j_stats j) | _ \<Rightarrow> None)"

definition variation_count :: "database \<Rightarrow> jsstring \<Rightarrow> Variation \<Rightarrow> nat" where
  "variation_count db ident v =
     length (filter (\<lambda>e. e_project_id e = ident \<and> e_variation e = v) (visitor_events db))"



section \<open>Example data\<close>

text \<open>
  An environment in which no call raises; a store with the active project \<open>proj_1\<close> and
  three of its events, labelled A, A, B; tracking requests; a project identifier as the
  application generates them; and one that holds double quotes.
\<close>

definition env0 :: env where
  "env0 = \<lparr>throws = (\<lambda>c. False), nanoid12 = lit ''V1StGXR8_Z5j'',
           now_iso = lit ''2026-01-01T00:00:00.000Z'', NEXT_PUBLIC_APP_URL = None\<rparr>"

definition proj_1 :: project_row where
  "proj_1 = \<lparr>p_id = lit ''proj_1'', p_name = lit ''Landing page'', p_domain = lit ''example.com'',
             p_description = None, p_is_active = 1,
             p_created_at = lit ''2025-12-01T00:00:00.000Z'',
             p_updated_at = lit ''2025-12-01T00:00:00.000Z''\<rparr>"

definition event_of :: "string \<Rightarrow> string \<Rightarrow> Variation \<Rightarrow> event_row" where
  "event_of eid vid x =
     \<lparr>e_id = lit eid, e_project_id = lit ''proj_1'', e_visitor_id = lit vid, e_variation = x,
      e_timestamp = lit ''2025-12-02T00:00:00.000Z'', e_user_agent = None, e_referrer = None\<rparr>"

definition db_AAB :: database where
  "db_AAB = \<lparr>projects = [proj_1],
             visitor_events = [event_of ''evt_1'' ''v_1'' A, event_of ''evt_2'' ''v_2'' A,
                               event_of ''evt_3'' ''v_3'' B]\<rparr>"

definition req_valid :: request where
  "req_valid = \<lparr>searchParams = [(lit ''v'', lit ''v_4''), (lit ''p'', lit ''proj_1''),
                                 (lit ''var'', lit ''C''), (lit ''t'', lit ''1767225600000'')],
                req_headers = [(lit ''user-agent'', lit ''Mozilla/5.0'')]\<rparr>"

definition req_empty_visitor :: request where
  "req_empty_visitor = \<lparr>searchParams = [(lit ''v'', []), (lit ''p'', lit ''proj_1''),
                                         (lit ''var'', lit ''A'')],
                        req_headers = []\<rparr>"

definition req_empty_variation :: request where
  "req_empty_variation = \<lparr>searchParams = [(lit ''v'', lit ''v_4''), (lit ''p'', lit ''proj_1''),
                                           (lit ''var'', [])],
                          req_headers = []\<rparr>"






section \<open>String literals\<close>

lemma of_char_bound: "(of_char c :: nat) < 256"
proof -
  have "(of_char c :: nat) = of_char (char_of (of_char c :: nat))" by simp
  also have "\<dots> = (of_char c :: nat) mod 256" by (simp only: of_char_of)
  finally have "(of_char c :: nat) = of_char c mod 256" .
  moreover have "(of_char c :: nat) mod 256 < 256" by simp
  ultimately show ?thesis by linarith
qed

lemma lit_eq_iff [simp]: "lit a = lit b \<longleftrightarrow> a = b"
proof -
  have "inj (\<lambda>c::char. (of_nat (of_char c) :: 16 word))"
  proof (rule injI)
    fix c d :: char
    assume "(of_nat (of_char c) :: 16 word) = of_nat (of_char d)"
    then have "take_bit 16 (of_char c :: nat) = take_bit 16 (of_char d :: nat)"
      by (simp add: word_of_nat_eq_iff)
    moreover have "(of_char e :: nat) < 2 ^ 16" for e
      by (rule less_trans [OF of_char_bound]) simp
    ultimately have "(of_char c :: nat) = of_char d"
      by (simp add: take_bit_nat_eq_self)
    then show "c = d" by simp
  qed
  then show ?thesis
    unfolding lit_def by (simp add: inj_map_eq_map)
qed

lemma lit_Nil [simp]: "lit [] = []"
  by (simp add: lit_def)

lemma lit_eq_Nil_iff [simp]: "lit s = [] \<longleftrightarrow> s = []" "[] = lit s \<longleftrightarrow> s = []"
  by (auto simp: lit_def)

lemma lit_append: "lit (a @ b) = lit a @ lit b"
  by (simp add: lit_def)

section \<open>Hashing and assignment\<close>

lemma ToInt32_signed: "ToInt32 x = signed_take_bit 31 x"
  by (simp add: ToInt32_def signed_take_bit_eq_take_bit_shift take_bit_eq_mod)

lemma ToUint32_unsigned: "ToUint32 x = take_bit 32 x"
  by (simp add: ToUint32_def take_bit_eq_mod)

lemma ToInt32_range: "- (2 ^ 31) \<le> ToInt32 x \<and> ToInt32 x < 2 ^ 31"
proof -
  have "0 \<le> (x + 2 ^ 31) mod 2 ^ 32" "(x + 2 ^ 31) mod 2 ^ 32 < (2 ^ 32 :: int)"
    by simp_all
  then show ?thesis unfolding ToInt32_def by simp
qed

lemma js_xor_range: "- (2 ^ 31) \<le> js_xor a b \<and> js_xor a b < 2 ^ 31"
  unfolding js_xor_def by (rule ToInt32_range)

lemma take_bit_js_xor: "take_bit 32 (js_xor a b) = take_bit 32 a XOR take_bit 32 b"
  by (simp add: js_xor_def ToInt32_signed take_bit_signed_take_bit)

lemma step_refines:
  "take_bit 32 (js_xor (h * 33) (charCode c)) = ((take_bit 32 h * 33) XOR uint c) mod 2 ^ 32"
proof -
  have m: "take_bit 32 (take_bit 32 h * 33) = take_bit 32 (h * 33)"
    using take_bit_mult [of 32 h 33] by simp
  have "((take_bit 32 h * 33) XOR uint c) mod 2 ^ 32
        = take_bit 32 ((take_bit 32 h * 33) XOR uint c)"
    by (simp only: take_bit_eq_mod)
  also have "\<dots> = take_bit 32 (h * 33) XOR take_bit 32 (uint c)"
    by (simp only: take_bit_xor m)
  finally show ?thesis
    by (simp only: take_bit_js_xor charCode_def)
qed

lemma loop_refines:
  "take_bit 32 (hashString_loop h s) = take_bit 32 (djb2_loop (take_bit 32 h) s)"
proof (induction s arbitrary: h)
  case Nil
  show ?case by simp
next
  case (Cons c s)
  have "take_bit 32 (hashString_loop h (c # s))
        = take_bit 32 (djb2_loop (take_bit 32 (js_xor (h * 33) (charCode c))) s)"
    using Cons.IH by simp
  then show ?case by (simp add: step_refines)
qed

text \<open>
  Claim C1.  For every string, \<open>hashString\<close> is the djb2 variant of the specification
  computed with exact unsigned 32-bit wrap-around: accumulator 5381, each character taking
  it to \<open>((accumulator * 33) XOR code) mod 2^32\<close>, the result coerced to an unsigned 32-bit
  integer.  The function is total (a primitive recursion over the string) and the empty
  string hashes to 5381.  The source keeps a signed 32-bit accumulator between steps and
  coerces only at the end; the residues modulo \<open>2^32\<close> agree at every step.
\<close>
theorem hashString_is_djb2_u32:
  "hashString s = djb2_spec s \<and> hashString [] = 5381"
proof
  show "hashString s = djb2_spec s"
    using loop_refines [of 5381 s]
    by (simp add: hashString_def djb2_spec_def ToUint32_unsigned take_bit_eq_mod)
  show "hashString [] = 5381"
    by (simp add: hashString_def ToUint32_def)
qed

lemma word_loop_refines:
  "take_bit 32 (hashString_loop h s) = uint (djb2_word_loop (word_of_int h) s)"
proof (induction s arbitrary: h)
  case Nil
  show ?case by (simp add: uint_word_of_int_eq)
next
  case (Cons c s)
  have "(word_of_int (js_xor (h * 33) (charCode c)) :: 32 word) = (word_of_int h * 33) XOR ucast c"
  proof -
    have "uint (word_of_int (js_xor (h * 33) (charCode c)) :: 32 word)
          = take_bit 32 (h * 33) XOR take_bit 32 (uint c)"
      by (simp add: uint_word_of_int_eq take_bit_js_xor charCode_def)
    also have "\<dots> = uint ((word_of_int h * 33 :: 32 word) XOR ucast c)"
      by (simp add: uint_xor uint_word_of_int_eq uint_word_ariths take_bit_eq_mod
          mod_mult_left_eq unsigned_ucast_eq)
    finally show ?thesis by (rule word_uint_eqI)
  qed
  then show ?case using Cons.IH by simp
qed

lemma hashString_word: "hashString s = uint (djb2_word s)"
  using word_loop_refines [of 5381 s] by (simp add: hashString_def djb2_word_def ToUint32_unsigned)

lemma hashString_range: "0 \<le> hashString s \<and> hashString s < 2 ^ 32"
  by (simp add: hashString_def ToUint32_def)

lemma accs_range:
  "- (2 ^ 31) \<le> h \<Longrightarrow> h < 2 ^ 31 \<Longrightarrow> \<forall>a \<in> set (hashString_accs h s). - (2 ^ 31) \<le> a \<and> a < 2 ^ 31"
proof (induction s arbitrary: h)
  case Nil
  then show ?case by simp
next
  case (Cons c s)
  from Cons.IH [of "js_xor (h * 33) (charCode c)"] js_xor_range [of "h * 33" "charCode c"]
  show ?case using Cons.prems by simp
qed

lemma hashString_products_exact:
  "\<forall>a \<in> set (hashString_accs 5381 s). \<bar>a * 33\<bar> < 2 ^ 53"
proof
  fix a assume "a \<in> set (hashString_accs 5381 s)"
  with accs_range [of 5381 s] have "- (2 ^ 31) \<le> a" "a < 2 ^ 31" by simp_all
  then show "\<bar>a * 33\<bar> < 2 ^ 53" by simp
qed

lemma hashString_accs_last: "last (hashString_accs h s) = hashString_loop h s"
  by (induction s arbitrary: h) (simp_all, metis hashString_accs.simps list.distinct(1) list.exhaust)

lemma hashString_example:
  "hashString (lit ''v_abc:proj_1'') = 1611050015"
  "assignVariation (lit ''v_abc'') (lit ''proj_1'') = Some D"
  by (simp_all add: assignVariation_def hashString_def lit_def charCode_def js_xor_def ToInt32_def
      ToUint32_def js_index_def js_rem_def)

lemma js_rem_nonneg: "0 \<le> a \<Longrightarrow> js_rem a 4 = a mod 4"
  by (simp add: js_rem_def)

text \<open>
  Claim C2.  \<open>assignVariation\<close> returns the symbol at index
  \<open>hashString (visitorId ++ ":" ++ projectId) mod 4\<close> of the list \<open>[A, B, C, D]\<close>.  The result
  is a function of the two identifiers alone, so two calls with the same pair agree.
\<close>
theorem assignVariation_bucket:
  "assignVariation visitorId projectId
     = Some ([A, B, C, D] ! nat (hashString (visitorId @ lit '':'' @ projectId) mod 4))"
proof -
  let ?h = "hashString (visitorId @ lit '':'' @ projectId)"
  have "0 \<le> ?h" using hashString_range by simp
  then have r: "js_rem ?h 4 = ?h mod 4" by (rule js_rem_nonneg)
  have "0 \<le> ?h mod 4" "?h mod 4 < 4" by simp_all
  then show ?thesis
    by (simp add: assignVariation_def Let_def js_index_def r)
qed

text \<open>
  Claim C9.  \<open>assignVariation\<close> always returns one of the four symbols: the hash is a
  non-negative unsigned 32-bit value, the remainder by 4 lies in \<open>[0, 4)\<close>, and the read of
  the variation list stays inside its bounds (it never yields \<open>undefined\<close>).
\<close>
theorem assignVariation_total:
  "assignVariation visitorId projectId \<in> {Some A, Some B, Some C, Some D}
   \<and> 0 \<le> hashString (visitorId @ lit '':'' @ projectId)
   \<and> hashString (visitorId @ lit '':'' @ projectId) < 2 ^ 32
   \<and> 0 \<le> js_rem (hashString (visitorId @ lit '':'' @ projectId)) 4
   \<and> js_rem (hashString (visitorId @ lit '':'' @ projectId)) 4 < int (length [A, B, C, D])"
proof -
  let ?h = "hashString (visitorId @ lit '':'' @ projectId)"
  have h: "0 \<le> ?h" "?h < 2 ^ 32" using hashString_range by simp_all
  then have r: "js_rem ?h 4 = ?h mod 4" by (simp add: js_rem_nonneg)
  have b: "0 \<le> ?h mod 4" "?h mod 4 < 4" by simp_all
  then have "nat (?h mod 4) \<in> {0, 1, 2, 3}" by auto
  then have "assignVariation visitorId projectId \<in> {Some A, Some B, Some C, Some D}"
    using b by (auto simp: assignVariation_def Let_def js_index_def r)
  with h b r show ?thesis by simp
qed

section \<open>Script generation\<close>











section \<open>Script serving\<close>

lemma find_project_id:
  "find (\<lambda>p. p_id p = ident) ps = Some p \<Longrightarrow> p_id p = ident"
  by (induction ps) (simp_all split: if_splits)

lemma GET_script_cases:
  "GET_script env db ident =
     (if throws env ReadRequest \<or> throws env OpenDatabase \<or> throws env SelectProject
      then \<lparr>status = 200, body = TextBody internal_error_script,
            headers = [(lit ''Content-Type'', lit ''application/javascript''),
                       (lit ''Cache-Control'', lit ''no-cache'')]\<rparr>
      else case find (\<lambda>p. p_id p = ident) (projects db) of
          None \<Rightarrow>
            \<lparr>status = 200, body = TextBody project_not_found_script,
              headers = [(lit ''Content-Type'', lit ''application/javascript''),
                         (lit ''Cache-Control'', lit ''no-cache, no-store, must-revalidate'')]\<rparr>
        | Some project \<Rightarrow>
            if p_is_active project = 1
            then \<lparr>status = 200,
                   body = TextBody (generateEmbedScript ident
                     (or_default (NEXT_PUBLIC_APP_URL env) (lit ''http://localhost:3000''))),
                   headers = [(lit ''Content-Type'', lit ''application/javascript''),
                              (lit ''Cache-Control'', lit ''public, max-age=300''),
                              (lit ''Access-Control-Allow-Origin'', lit ''*'')]\<rparr>
            else \<lparr>status = 200, body = TextBody project_inactive_script,
                   headers = [(lit ''Content-Type'', lit ''application/javascript''),
                              (lit ''Cache-Control'', lit ''no-cache, no-store, must-revalidate'')]\<rparr>)"
proof (cases "find (\<lambda>p. p_id p = ident) (projects db)")
  case None
  then show ?thesis
    by (simp add: GET_script_def GET_script_try_def getDatabase_def select_project_def)
next
  case (Some project)
  then have "p_id project = ident" by (rule find_project_id)
  with Some show ?thesis
    by (simp add: GET_script_def GET_script_try_def getDatabase_def select_project_def Let_def)
qed

text \<open>
  Claim C4.  The script endpoint answers 200 on every path.  When a call raises, the body
  is the internal-error placeholder; when no project has the identifier, the not-found
  placeholder; when the project is not active, the inactive placeholder, which differs
  from the not-found one; when it is active, the generated embed script.
\<close>
theorem GET_script_always_succeeds:
  "status (GET_script env db ident) = 200
   \<and> body (GET_script env db ident) = TextBody
       (if throws env ReadRequest \<or> throws env OpenDatabase \<or> throws env SelectProject
        then internal_error_script
        else case find (\<lambda>p. p_id p = ident) (projects db) of
               None \<Rightarrow> project_not_found_script
             | Some project \<Rightarrow>
                 if p_is_active project = 1
                 then generateEmbedScript ident
                        (or_default (NEXT_PUBLIC_APP_URL env) (lit ''http://localhost:3000''))
                 else project_inactive_script)
   \<and> project_inactive_script \<noteq> project_not_found_script"
proof -
  have "project_inactive_script \<noteq> project_not_found_script"
    by (simp add: project_inactive_script_def project_not_found_script_def)
  then show ?thesis
    by (simp add: GET_script_cases split: option.split)
qed

section \<open>Tracking\<close>

lemma directives_no_store:
  "header_directives (lit ''no-cache, no-store, must-revalidate'')
     = [lit ''no-cache'', lit ''no-store'', lit ''must-revalidate'']"
  by (simp add: header_directives_def lit_def)

lemma directives_no_cache:
  "header_directives (lit ''no-cache'') = [lit ''no-cache'']"
  by (simp add: header_directives_def lit_def)

lemma PIXEL_bytes:
  "PIXEL = [0x47, 0x49, 0x46, 0x38, 0x39, 0x61, 1, 0, 1, 0, 0x80, 0, 0, 0, 0, 0, 0xFF, 0xFF, 0xFF,
            0x21, 0xF9, 4, 1, 0, 0, 0, 0, 0x2C, 0, 0, 0, 0, 1, 0, 1, 0, 0, 2, 1, 0x44, 0, 0x3B]"
  by (simp add: PIXEL_def Buffer_from_base64_def base64_alphabet_def List.map_filter_def)

lemma sets_no_cache_pixel:
  "sets_no_cache (pixel_response no_store_headers)"
  "sets_no_cache (pixel_response [(lit ''Content-Type'', lit ''image/gif''),
                                  (lit ''Cache-Control'', lit ''no-cache'')])"
  "sets_no_cache (pixel_response [(lit ''Content-Type'', lit ''image/gif''),
                                  (lit ''Cache-Control'', lit ''no-cache, no-store, must-revalidate''),
                                  (lit ''Access-Control-Allow-Origin'', lit ''*'')])"
  by (simp_all add: sets_no_cache_def pixel_response_def no_store_headers_def
      directives_no_store directives_no_cache)

lemma GET_track_try_response:
  "(\<exists>e. fst (GET_track_try env req db) = Inl e)
   \<or> fst (GET_track_try env req db) = Inr (pixel_response no_store_headers)
   \<or> fst (GET_track_try env req db)
       = Inr (pixel_response [(lit ''Content-Type'', lit ''image/gif''),
                              (lit ''Cache-Control'', lit ''no-cache, no-store, must-revalidate''),
                              (lit ''Access-Control-Allow-Origin'', lit ''*'')])"
  by (simp add: GET_track_try_def Let_def split: option.splits sum.splits)

lemma GET_track_response:
  "fst (GET_track env req db) \<in>
     {pixel_response no_store_headers,
      pixel_response [(lit ''Content-Type'', lit ''image/gif''),
                      (lit ''Cache-Control'', lit ''no-cache'')],
      pixel_response [(lit ''Content-Type'', lit ''image/gif''),
                      (lit ''Cache-Control'', lit ''no-cache, no-store, must-revalidate''),
                      (lit ''Access-Control-Allow-Origin'', lit ''*'')]}"
  using GET_track_try_response [of env req db]
  by (cases "GET_track_try env req db") (auto simp: GET_track_def split: sum.splits)

text \<open>
  Claim C6.  On every path of the tracking endpoint (recorded, missing parameter, invalid
  variation, unknown project, a call that raises) the response body is the fixed pixel, the
  status is 200 and the \<open>Cache-Control\<close> header carries the \<open>no-cache\<close> directive.
\<close>
theorem GET_track_fixed_response:
  "body (fst (GET_track env req db)) = BufferBody PIXEL
   \<and> status (fst (GET_track env req db)) = 200
   \<and> sets_no_cache (fst (GET_track env req db))"
proof -
  from GET_track_response [of env req db]
  consider "fst (GET_track env req db) = pixel_response no_store_headers"
    | "fst (GET_track env req db) = pixel_response [(lit ''Content-Type'', lit ''image/gif''),
                      (lit ''Cache-Control'', lit ''no-cache'')]"
    | "fst (GET_track env req db) = pixel_response [(lit ''Content-Type'', lit ''image/gif''),
                      (lit ''Cache-Control'', lit ''no-cache, no-store, must-revalidate''),
                      (lit ''Access-Control-Allow-Origin'', lit ''*'')]"
    by blast
  then show ?thesis
  proof cases
    case 1
    then show ?thesis using sets_no_cache_pixel(1) by (simp add: pixel_response_def)
  next
    case 2
    then show ?thesis using sets_no_cache_pixel(2) by (simp add: pixel_response_def)
  next
    case 3
    then show ?thesis using sets_no_cache_pixel(3) by (simp add: pixel_response_def)
  qed
qed

lemma isValidVariation_iff: "isValidVariation var \<longleftrightarrow> variation_of_text var \<noteq> None"
  by (simp add: isValidVariation_def variation_of_text_def)

lemma variation_of_text_Nil [simp]: "variation_of_text [] = None"
  by (simp add: variation_of_text_def)

lemma GET_track_store:
  "snd (GET_track env req db) =
     (case recorded_event env req db of
        None \<Rightarrow> db
      | Some row \<Rightarrow> db\<lparr>visitor_events := visitor_events db @ [row]\<rparr>)"
proof (cases "searchParams_get req (lit ''v'')")
  case None
  then show ?thesis
    by (simp add: GET_track_def GET_track_try_def recorded_event_def)
next
  case v: (Some v)
  show ?thesis
  proof (cases "searchParams_get req (lit ''p'')")
    case None
    with v show ?thesis
      by (simp add: GET_track_def GET_track_try_def recorded_event_def)
  next
    case p: (Some p)
    show ?thesis
    proof (cases "searchParams_get req (lit ''var'')")
      case None
      with v p show ?thesis
        by (simp add: GET_track_def GET_track_try_def recorded_event_def)
    next
      case var: (Some var)
      show ?thesis
      proof (cases "variation_of_text var")
        case None
        with v p var show ?thesis
          by (simp add: GET_track_def GET_track_try_def recorded_event_def isValidVariation_iff)
      next
        case x: (Some x)
        then have "var \<noteq> []" by auto
        show ?thesis
        proof (cases "find (\<lambda>r. p_id r = p) (projects db)")
          case None
          with v p var x \<open>var \<noteq> []\<close> show ?thesis
            by (simp add: GET_track_def GET_track_try_def recorded_event_def isValidVariation_iff
                getDatabase_def select_project_def)
        next
          case (Some project)
          with v p var x \<open>var \<noteq> []\<close> show ?thesis
            by (simp add: GET_track_def GET_track_try_def recorded_event_def isValidVariation_iff
                getDatabase_def select_project_def insert_event_def Let_def)
        qed
      qed
    qed
  qed
qed

text \<open>
  Claim C5, with the conditions the code has.  A tracking call leaves the store as it was
  or appends exactly one row.  It appends the row if and only if \<open>v\<close>, \<open>p\<close> and \<open>var\<close> are
  present, \<open>v\<close> and \<open>p\<close> are not empty, \<open>var\<close> is one of A, B, C, D, a project with identifier
  \<open>p\<close> is in the store, no call of the handler raises, and the generated event identifier
  is not in use.  The row carries the visitor and project identifiers, the variation, the
  clock's timestamp, and the user-agent and referrer headers (null when absent or empty).
\<close>
theorem GET_track_records:
  "snd (GET_track env req db) =
     (case recorded_event env req db of
        None \<Rightarrow> db
      | Some row \<Rightarrow> db\<lparr>visitor_events := visitor_events db @ [row]\<rparr>)
   \<and> (recorded_event env req db \<noteq> None) =
       ((\<exists>v p var. searchParams_get req (lit ''v'') = Some v \<and> v \<noteq> []
            \<and> searchParams_get req (lit ''p'') = Some p \<and> p \<noteq> []
            \<and> searchParams_get req (lit ''var'') = Some var
            \<and> var \<in> {lit ''A'', lit ''B'', lit ''C'', lit ''D''}
            \<and> find (\<lambda>r. p_id r = p) (projects db) \<noteq> None)
        \<and> \<not> (throws env ReadRequest \<or> throws env OpenDatabase \<or> throws env SelectProject
               \<or> throws env InsertEvent)
        \<and> lit ''evt_'' @ nanoid12 env \<notin> set (map e_id (visitor_events db)))"
proof
  show "snd (GET_track env req db) =
     (case recorded_event env req db of
        None \<Rightarrow> db
      | Some row \<Rightarrow> db\<lparr>visitor_events := visitor_events db @ [row]\<rparr>)"
    by (rule GET_track_store)
  have v: "var \<in> {lit ''A'', lit ''B'', lit ''C'', lit ''D''} \<longleftrightarrow> variation_of_text var \<noteq> None" for var
    by (simp add: variation_of_text_def)
  show "(recorded_event env req db \<noteq> None) =
       ((\<exists>v p var. searchParams_get req (lit ''v'') = Some v \<and> v \<noteq> []
            \<and> searchParams_get req (lit ''p'') = Some p \<and> p \<noteq> []
            \<and> searchParams_get req (lit ''var'') = Some var
            \<and> var \<in> {lit ''A'', lit ''B'', lit ''C'', lit ''D''}
            \<and> find (\<lambda>r. p_id r = p) (projects db) \<noteq> None)
        \<and> \<not> (throws env ReadRequest \<or> throws env OpenDatabase \<or> throws env SelectProject
               \<or> throws env InsertEvent)
        \<and> lit ''evt_'' @ nanoid12 env \<notin> set (map e_id (visitor_events db)))"
    unfolding recorded_event_def v
    by (cases "searchParams_get req (lit ''v'')"; cases "searchParams_get req (lit ''p'')";
        cases "searchParams_get req (lit ''var'')")
      (auto split: option.splits)
qed

theorem GET_track_records_witness:
  "snd (GET_track env0 req_valid db_AAB) =
     db_AAB\<lparr>visitor_events := visitor_events db_AAB @
       [\<lparr>e_id = lit ''evt_V1StGXR8_Z5j'', e_project_id = lit ''proj_1'',
         e_visitor_id = lit ''v_4'', e_variation = C,
         e_timestamp = lit ''2026-01-01T00:00:00.000Z'',
         e_user_agent = Some (lit ''Mozilla/5.0''), e_referrer = None\<rparr>]\<rparr>"
  using GET_track_records [of env0 req_valid db_AAB]
  by (simp add: recorded_event_def searchParams_get_def headers_get_def req_valid_def env0_def
      db_AAB_def proj_1_def event_of_def variation_of_text_def or_null_def flip: lit_append)

text \<open>
  The claim as first stated asks for a row whenever the three parameters are present, the
  variation is valid and the project exists.  With \<open>v\<close> present and empty, all of that
  holds and no row is appended.
\<close>
theorem empty_visitor_not_recorded:
  "searchParams_get req_empty_visitor (lit ''v'') \<noteq> None
   \<and> searchParams_get req_empty_visitor (lit ''p'') = Some (lit ''proj_1'')
   \<and> searchParams_get req_empty_visitor (lit ''var'') = Some (lit ''A'')
   \<and> isValidVariation (lit ''A'')
   \<and> find (\<lambda>p. p_id p = lit ''proj_1'') (projects db_AAB) = Some proj_1
   \<and> snd (GET_track env0 req_empty_visitor db_AAB) = db_AAB"
  by (simp add: searchParams_get_def req_empty_visitor_def isValidVariation_def db_AAB_def
      proj_1_def GET_track_store recorded_event_def variation_of_text_def)

lemma GET_track_rejects:
  assumes "searchParams_get req (lit ''v'') \<in> {None, Some []}
           \<or> searchParams_get req (lit ''p'') \<in> {None, Some []}
           \<or> searchParams_get req (lit ''var'') \<in> {None, Some []}"
  shows "GET_track env req db =
           (if throws env ReadRequest
            then (pixel_response [(lit ''Content-Type'', lit ''image/gif''),
                                  (lit ''Cache-Control'', lit ''no-cache'')], db)
            else (pixel_response no_store_headers, db))"
  using assms
  by (cases "searchParams_get req (lit ''v'')"; cases "searchParams_get req (lit ''p'')";
      cases "searchParams_get req (lit ''var'')")
    (auto simp: GET_track_def GET_track_try_def)

lemma map_of_filter_removed:
  "map_of (filter (\<lambda>kv. fst kv \<noteq> name) xs) name = None"
  by (induction xs) auto

text \<open>
  Claim C10.  A tracking call whose \<open>v\<close>, \<open>p\<close> or \<open>var\<close> parameter is present but empty behaves
  as the call with that parameter removed: the store is left as it was and the response is
  the fixed pixel with status 200.
\<close>
theorem empty_parameter_is_missing:
  assumes "name \<in> {lit ''v'', lit ''p'', lit ''var''}"
    and "searchParams_get req name = Some []"
  shows "GET_track env req db
           = GET_track env (req\<lparr>searchParams := filter (\<lambda>kv. fst kv \<noteq> name) (searchParams req)\<rparr>) db
         \<and> snd (GET_track env req db) = db
         \<and> body (fst (GET_track env req db)) = BufferBody PIXEL
         \<and> status (fst (GET_track env req db)) = 200"
proof -
  let ?req' = "req\<lparr>searchParams := filter (\<lambda>kv. fst kv \<noteq> name) (searchParams req)\<rparr>"
  have missing: "searchParams_get ?req' name = None"
    by (simp add: searchParams_get_def map_of_filter_removed)
  have a: "searchParams_get req (lit ''v'') \<in> {None, Some []}
           \<or> searchParams_get req (lit ''p'') \<in> {None, Some []}
           \<or> searchParams_get req (lit ''var'') \<in> {None, Some []}"
    using assms by auto
  have b: "searchParams_get ?req' (lit ''v'') \<in> {None, Some []}
           \<or> searchParams_get ?req' (lit ''p'') \<in> {None, Some []}
           \<or> searchParams_get ?req' (lit ''var'') \<in> {None, Some []}"
    using assms(1) missing by auto
  show ?thesis
    by (simp add: GET_track_rejects [OF a] GET_track_rejects [OF b] pixel_response_def)
qed

theorem empty_parameter_is_missing_witness:
  "lit ''var'' \<in> {lit ''v'', lit ''p'', lit ''var''}
   \<and> searchParams_get req_empty_variation (lit ''var'') = Some []
   \<and> find (\<lambda>p. p_id p = lit ''proj_1'') (projects db_AAB) = Some proj_1
   \<and> snd (GET_track env0 req_empty_variation db_AAB) = db_AAB
   \<and> body (fst (GET_track env0 req_empty_variation db_AAB)) = BufferBody PIXEL
   \<and> status (fst (GET_track env0 req_empty_variation db_AAB)) = 200"
proof -
  have n: "lit ''var'' \<in> {lit ''v'', lit ''p'', lit ''var''}" by simp
  have g: "searchParams_get req_empty_variation (lit ''var'') = Some []"
    by (simp add: searchParams_get_def req_empty_variation_def)
  have f: "find (\<lambda>p. p_id p = lit ''proj_1'') (projects db_AAB) = Some proj_1"
    by (simp add: db_AAB_def proj_1_def)
  show ?thesis
    using n g f empty_parameter_is_missing [OF n g, of env0 db_AAB, THEN conjunct2] by simp
qed

section \<open>Statistics and deletion\<close>

lemma count_absent:
  "v \<notin> set (map e_variation rows) \<Longrightarrow> length (filter (\<lambda>e. e_variation e = v) rows) = 0"
  by (induction rows) auto

lemma tally_grouped:
  assumes "\<And>v. v \<notin> S \<Longrightarrow> cnt v = 0"
  shows "tally (map (\<lambda>v. (v, cnt v)) (filter (\<lambda>v. v \<in> S) [A, B, C, D]))
           ([A \<mapsto> 0, B \<mapsto> 0, C \<mapsto> 0, D \<mapsto> 0], 0)
         = ([A \<mapsto> cnt A, B \<mapsto> cnt B, C \<mapsto> cnt C, D \<mapsto> cnt D], cnt A + cnt B + cnt C + cnt D)"
proof -
  have m: "([A \<mapsto> a, B \<mapsto> b, C \<mapsto> c, D \<mapsto> d] :: Variation \<rightharpoonup> nat) x
           = Some (case x of A \<Rightarrow> a | B \<Rightarrow> b | C \<Rightarrow> c | D \<Rightarrow> d)" for a b c d x
    by (cases x) simp_all
  show ?thesis
    using assms [of A] assms [of B] assms [of C] assms [of D]
    by (cases "A \<in> S"; cases "B \<in> S"; cases "C \<in> S"; cases "D \<in> S")
      (simp_all add: fun_eq_iff m split: Variation.split)
qed

lemma rows_by_variation:
  "length rows = length (filter (\<lambda>e. e_variation e = A) rows)
               + length (filter (\<lambda>e. e_variation e = B) rows)
               + length (filter (\<lambda>e. e_variation e = C) rows)
               + length (filter (\<lambda>e. e_variation e = D) rows)"
proof (induction rows)
  case Nil
  show ?case by simp
next
  case (Cons e rows)
  then show ?case by (cases "e_variation e") simp_all
qed

lemma variation_count_rows:
  "variation_count db ident v
     = length (filter (\<lambda>e. e_variation e = v)
                 (filter (\<lambda>e. e_project_id e = ident) (visitor_events db)))"
  by (simp add: variation_count_def conj_commute)

lemma GET_project_found:
  assumes "find (\<lambda>p. p_id p = ident) (projects db) = Some project"
    and "\<not> (throws env ReadRequest \<or> throws env OpenDatabase \<or> throws env SelectProject
             \<or> throws env SelectCounts)"
  shows "GET_project env db ident = json_response
           (JsonProject
              \<lparr>j_id = p_id project, j_name = p_name project, j_domain = p_domain project,
                j_description = p_description project, j_isActive = (p_is_active project = 1),
                j_createdAt = p_created_at project, j_updatedAt = p_updated_at project,
                j_embedScript = generateEmbedCode (p_id project)
                  (or_default (NEXT_PUBLIC_APP_URL env) (lit ''http://localhost:3000'')),
                j_stats = \<lparr>j_totalVisitors = variation_count db ident A + variation_count db ident B
                                + variation_count db ident C + variation_count db ident D,
                            j_variations = [A \<mapsto> variation_count db ident A,
                                            B \<mapsto> variation_count db ident B,
                                            C \<mapsto> variation_count db ident C,
                                            D \<mapsto> variation_count db ident D]\<rparr>\<rparr>) 200"
proof -
  define rows where "rows = filter (\<lambda>e. e_project_id e = ident) (visitor_events db)"
  define cnt where "cnt v = length (filter (\<lambda>e. e_variation e = v) rows)" for v
  define stats where
    "stats = map (\<lambda>v. (v, cnt v)) (filter (\<lambda>v. v \<in> set (map e_variation rows)) [A, B, C, D])"
  define counts where "counts = [A \<mapsto> cnt A, B \<mapsto> cnt B, C \<mapsto> cnt C, D \<mapsto> cnt D]"
  define total where "total = cnt A + cnt B + cnt C + cnt D"
  have t: "tally stats ([A \<mapsto> 0, B \<mapsto> 0, C \<mapsto> 0, D \<mapsto> 0], 0) = (counts, total)"
    unfolding stats_def counts_def total_def
    by (rule tally_grouped) (simp add: cnt_def count_absent)
  have nc: "\<not> throws env SelectCounts"
    using assms(2) by simp
  have s: "select_variation_counts env db ident = Inr stats"
    by (simp only: select_variation_counts_def Let_def stats_def cnt_def rows_def nc if_False)
  have c: "cnt v = variation_count db ident v" for v
    by (simp add: cnt_def rows_def variation_count_rows)
  have "GET_project_try env db ident = Inr (json_response
           (JsonProject
              \<lparr>j_id = p_id project, j_name = p_name project, j_domain = p_domain project,
                j_description = p_description project, j_isActive = (p_is_active project = 1),
                j_createdAt = p_created_at project, j_updatedAt = p_updated_at project,
                j_embedScript = generateEmbedCode (p_id project)
                  (or_default (NEXT_PUBLIC_APP_URL env) (lit ''http://localhost:3000'')),
                j_stats = \<lparr>j_totalVisitors = total, j_variations = counts\<rparr>\<rparr>) 200)"
    using assms
    by (simp add: GET_project_try_def getDatabase_def select_project_def s t Let_def)
  then show ?thesis
    by (simp only: GET_project_def sum.case counts_def total_def c)
qed

lemma GET_project_missing:
  assumes "find (\<lambda>p. p_id p = ident) (projects db) = None"
  shows "project_stats (GET_project env db ident) = None"
    and "\<not> (throws env ReadRequest \<or> throws env OpenDatabase \<or> throws env SelectProject)
         \<Longrightarrow> GET_project env db ident = json_response (JsonError (lit ''Project not found'')) 404"
  using assms
  by (simp_all add: GET_project_def GET_project_try_def getDatabase_def select_project_def
      project_stats_def json_response_def)

text \<open>
  Claim C7.  For a project in the store, the project response carries statistics in which
  each of A, B, C, D is present and mapped to the number of the project's event rows with
  that variation (zero when there is none), and the total is the sum of the four counts,
  which is the number of the project's event rows.
\<close>
theorem stats_per_variation:
  assumes "find (\<lambda>p. p_id p = ident) (projects db) = Some project"
    and "\<not> (throws env ReadRequest \<or> throws env OpenDatabase \<or> throws env SelectProject
             \<or> throws env SelectCounts)"
  shows "status (GET_project env db ident) = 200
         \<and> project_stats (GET_project env db ident)
             = Some \<lparr>j_totalVisitors = variation_count db ident A + variation_count db ident B
                        + variation_count db ident C + variation_count db ident D,
                     j_variations = [A \<mapsto> variation_count db ident A,
                                     B \<mapsto> variation_count db ident B,
                                     C \<mapsto> variation_count db ident C,
                                     D \<mapsto> variation_count db ident D]\<rparr>
         \<and> variation_count db ident A + variation_count db ident B
             + variation_count db ident C + variation_count db ident D
             = length (filter (\<lambda>e. e_project_id e = ident) (visitor_events db))"
proof -
  have "variation_count db ident A + variation_count db ident B
             + variation_count db ident C + variation_count db ident D
             = length (filter (\<lambda>e. e_project_id e = ident) (visitor_events db))"
    using rows_by_variation [of "filter (\<lambda>e. e_project_id e = ident) (visitor_events db)"]
    by (simp add: variation_count_rows)
  then show ?thesis
    by (simp add: GET_project_found [OF assms] project_stats_def json_response_def
        del: fun_upd_apply)
qed

theorem stats_per_variation_witness:
  "find (\<lambda>p. p_id p = lit ''proj_1'') (projects db_AAB) = Some proj_1
   \<and> \<not> (throws env0 ReadRequest \<or> throws env0 OpenDatabase \<or> throws env0 SelectProject
          \<or> throws env0 SelectCounts)
   \<and> status (GET_project env0 db_AAB (lit ''proj_1'')) = 200
   \<and> project_stats (GET_project env0 db_AAB (lit ''proj_1''))
       = Some \<lparr>j_totalVisitors = 3, j_variations = [A \<mapsto> 2, B \<mapsto> 1, C \<mapsto> 0, D \<mapsto> 0]\<rparr>"
proof -
  have f: "find (\<lambda>p. p_id p = lit ''proj_1'') (projects db_AAB) = Some proj_1"
    by (simp add: db_AAB_def proj_1_def)
  have t: "\<not> (throws env0 ReadRequest \<or> throws env0 OpenDatabase \<or> throws env0 SelectProject
          \<or> throws env0 SelectCounts)"
    by (simp add: env0_def)
  have c: "variation_count db_AAB (lit ''proj_1'') A = 2"
    "variation_count db_AAB (lit ''proj_1'') B = 1"
    "variation_count db_AAB (lit ''proj_1'') C = 0"
    "variation_count db_AAB (lit ''proj_1'') D = 0"
    by (simp_all add: variation_count_def db_AAB_def event_of_def)
  show ?thesis
    using f t stats_per_variation [OF f t] by (simp add: c del: fun_upd_apply)
qed

lemma GET_track_projects: "projects (snd (GET_track env req db)) = projects db"
  by (simp add: GET_track_store split: option.split)

lemma recorded_event_project:
  "recorded_event env req db = Some row
     \<Longrightarrow> find (\<lambda>r. p_id r = e_project_id row) (projects db) \<noteq> None"
  by (auto simp: recorded_event_def split: option.splits if_splits)

lemma GET_track_keeps_absent:
  assumes "find (\<lambda>p. p_id p = ident) (projects db) = None"
    and "filter (\<lambda>e. e_project_id e = ident) (visitor_events db) = []"
  shows "filter (\<lambda>e. e_project_id e = ident) (visitor_events (snd (GET_track env req db))) = []"
proof (cases "recorded_event env req db")
  case None
  with assms(2) show ?thesis by (simp add: GET_track_store)
next
  case (Some row)
  from recorded_event_project [OF Some] assms(1) have "e_project_id row \<noteq> ident" by auto
  with Some assms(2) show ?thesis by (simp add: GET_track_store)
qed

lemma track_all_keeps_absent:
  assumes "find (\<lambda>p. p_id p = ident) (projects db) = None"
    and "filter (\<lambda>e. e_project_id e = ident) (visitor_events db) = []"
  shows "find (\<lambda>p. p_id p = ident) (projects (track_all calls db)) = None
         \<and> filter (\<lambda>e. e_project_id e = ident) (visitor_events (track_all calls db)) = []"
  using assms
proof (induction calls arbitrary: db)
  case Nil
  then show ?case by simp
next
  case (Cons c calls)
  have "find (\<lambda>p. p_id p = ident) (projects (snd (GET_track (fst c) (snd c) db))) = None"
    using Cons.prems(1) by (simp add: GET_track_projects)
  moreover have "filter (\<lambda>e. e_project_id e = ident)
                   (visitor_events (snd (GET_track (fst c) (snd c) db))) = []"
    using Cons.prems by (rule GET_track_keeps_absent)
  ultimately show ?case using Cons.IH by simp
qed

lemma find_filter_removed: "find (\<lambda>p. p_id p = ident) (filter (\<lambda>p. p_id p \<noteq> ident) ps) = None"
  by (induction ps) auto

lemma DELETE_project_found:
  assumes "find (\<lambda>p. p_id p = ident) (projects db) = Some project"
    and "\<not> (throws env ReadRequest \<or> throws env OpenDatabase \<or> throws env SelectProject
             \<or> throws env DeleteEvents \<or> throws env DeleteProject)"
  shows "DELETE_project env db ident =
           (json_response (JsonSuccess True) 200,
            db\<lparr>visitor_events := filter (\<lambda>e. e_project_id e \<noteq> ident) (visitor_events db),
               projects := filter (\<lambda>p. p_id p \<noteq> ident) (projects db)\<rparr>)"
  using assms
  by (simp add: DELETE_project_def DELETE_project_try_def getDatabase_def select_project_def
      delete_events_def delete_project_def)

text \<open>
  Claim C8.  Deleting a project that is in the store succeeds and leaves no event row that
  refers to it; the same holds after any later run of tracking calls, and every later call
  for the project's statistics answers 404 "Project not found" and never carries
  statistics (with a call that raises it answers 500, again without statistics).
\<close>
theorem delete_removes_events_and_project:
  assumes "find (\<lambda>p. p_id p = ident) (projects db) = Some project"
    and "\<not> (throws env ReadRequest \<or> throws env OpenDatabase \<or> throws env SelectProject
             \<or> throws env DeleteEvents \<or> throws env DeleteProject)"
    and "\<not> (throws env' ReadRequest \<or> throws env' OpenDatabase \<or> throws env' SelectProject)"
  shows "fst (DELETE_project env db ident) = json_response (JsonSuccess True) 200
         \<and> filter (\<lambda>e. e_project_id e = ident)
              (visitor_events (track_all calls (snd (DELETE_project env db ident)))) = []
         \<and> GET_project env' (track_all calls (snd (DELETE_project env db ident))) ident
             = json_response (JsonError (lit ''Project not found'')) 404
         \<and> project_stats
              (GET_project env'' (track_all calls (snd (DELETE_project env db ident))) ident) = None"
proof -
  let ?db1 = "snd (DELETE_project env db ident)"
  have d: "DELETE_project env db ident =
           (json_response (JsonSuccess True) 200,
            db\<lparr>visitor_events := filter (\<lambda>e. e_project_id e \<noteq> ident) (visitor_events db),
               projects := filter (\<lambda>p. p_id p \<noteq> ident) (projects db)\<rparr>)"
    using assms(1,2) by (rule DELETE_project_found)
  have p: "find (\<lambda>p. p_id p = ident) (projects ?db1) = None"
    by (simp add: d find_filter_removed)
  have e: "filter (\<lambda>e. e_project_id e = ident) (visitor_events ?db1) = []"
    by (simp add: d filter_empty_conv)
  from track_all_keeps_absent [OF p e, of calls]
  have k: "find (\<lambda>p. p_id p = ident) (projects (track_all calls ?db1)) = None"
    and n: "filter (\<lambda>e. e_project_id e = ident) (visitor_events (track_all calls ?db1)) = []"
    by simp_all
  show ?thesis
    using n GET_project_missing(1) [OF k] GET_project_missing(2) [OF k assms(3)]
    by (simp add: d)
qed

theorem delete_removes_events_and_project_witness:
  "find (\<lambda>p. p_id p = lit ''proj_1'') (projects db_AAB) = Some proj_1
   \<and> \<not> (throws env0 ReadRequest \<or> throws env0 OpenDatabase \<or> throws env0 SelectProject
          \<or> throws env0 DeleteEvents \<or> throws env0 DeleteProject)
   \<and> filter (\<lambda>e. e_project_id e = lit ''proj_1'') (visitor_events db_AAB) \<noteq> []
   \<and> fst (DELETE_project env0 db_AAB (lit ''proj_1'')) = json_response (JsonSuccess True) 200
   \<and> filter (\<lambda>e. e_project_id e = lit ''proj_1'')
        (visitor_events (track_all [(env0, req_valid)]
           (snd (DELETE_project env0 db_AAB (lit ''proj_1''))))) = []
   \<and> GET_project env0 (track_all [(env0, req_valid)]
           (snd (DELETE_project env0 db_AAB (lit ''proj_1'')))) (lit ''proj_1'')
        = json_response (JsonError (lit ''Project not found'')) 404"
proof -
  have f: "find (\<lambda>p. p_id p = lit ''proj_1'') (projects db_AAB) = Some proj_1"
    by (simp add: db_AAB_def proj_1_def)
  have t: "\<not> (throws env0 ReadRequest \<or> throws env0 OpenDatabase \<or> throws env0 SelectProject
          \<or> throws env0 DeleteEvents \<or> throws env0 DeleteProject)"
    by (simp add: env0_def)
  have t': "\<not> (throws env0 ReadRequest \<or> throws env0 OpenDatabase \<or> throws env0 SelectProject)"
    by (simp add: env0_def)
  have e: "filter (\<lambda>e. e_project_id e = lit ''proj_1'') (visitor_events db_AAB) \<noteq> []"
    by (simp add: db_AAB_def event_of_def)
  show ?thesis
    using f t e delete_removes_events_and_project [OF f t t', of "[(env0, req_valid)]" env0]
    by simp
qed

end
